theory Spec2Isabelle
  imports Main "HOL-Library.Word"
begin

section \<open>Errors\<close>

text \<open>
  Both source files return \<^verbatim>\<open>core::Error\<close> values. The class is declared outside the
  two files studied here. An \<open>Error\<close> is \<open>Success\<close> or one of the error values the two
  files build: \<^verbatim>\<open>systemError(code, ...)\<close>, \<^verbatim>\<open>ioError(description, ...)\<close> and the error made
  from a \<^verbatim>\<open>boost::thread_resource_error\<close>. The test \<^verbatim>\<open>if (error)\<close> is the conversion of
  an \<open>Error\<close> to a truth value, which is defined with the class; the functions that make
  the test take it as a parameter named \<open>isError\<close>. \<open>notSuccess\<close> is the conversion that
  holds for every value other than \<open>Success\<close>.

  Win32OutputCapture.cpp builds its errors from a \<^verbatim>\<open>boost::system::error_code\<close>
  (\<^verbatim>\<open>Error error(ec, location)\<close> in \<^verbatim>\<open>ioError\<close>, and the error made from the thread
  exception), and an error code converts to true exactly when its value is not 0.
  \<open>codeIsNonzero\<close> is the conversion that follows the wrapped code: \<open>Success\<close> and a
  system error with code 0 test false.
\<close>

datatype Error =
    Success
  | systemError int
  | ioError string
  | thread_resource_error

definition notSuccess :: "Error \<Rightarrow> bool" where
  "notSuccess error = (error \<noteq> Success)"

definition codeIsNonzero :: "Error \<Rightarrow> bool" where
  "codeIsNonzero error =
     (case error of
        Success \<Rightarrow> False
      | systemError code \<Rightarrow> code \<noteq> 0
      | ioError description \<Rightarrow> True
      | thread_resource_error \<Rightarrow> True)"

section \<open>Data model of FindReferences.cpp\<close>

text \<open>
  \<^verbatim>\<open>core::libclang::FileLocation\<close> and \<^verbatim>\<open>CursorLocation\<close> are declared in a header of
  libclang support code; FindReferences.cpp reads the fields \<^verbatim>\<open>filePath\<close>, \<^verbatim>\<open>line\<close>,
  \<^verbatim>\<open>column\<close> and \<^verbatim>\<open>extent\<close>. The source computes \<^verbatim>\<open>unsigned col = loc.column - 1\<close>,
  so line, column and extent are 32-bit unsigned values whose arithmetic wraps.
  A \<^verbatim>\<open>FilePath\<close> is represented by its absolute path.
\<close>

record FileLocation =
  filePath :: string
  line :: "32 word"
  column :: "32 word"

record CursorLocation = FileLocation +
  extent :: "32 word"

subsection \<open>std::string::substr\<close>

text \<open>
  \<^verbatim>\<open>s.substr(pos, n)\<close> throws \<^verbatim>\<open>std::out_of_range\<close> when \<^verbatim>\<open>pos > s.size()\<close> and
  otherwise yields the characters \<^verbatim>\<open>[pos, min(pos + n, size))\<close>; \<^verbatim>\<open>s.substr(pos)\<close> runs to
  the end of the string.
\<close>

datatype exception = std_out_of_range

definition substr :: "string \<Rightarrow> nat \<Rightarrow> nat \<Rightarrow> exception + string" where
  "substr s pos n = (if length s < pos then Inl std_out_of_range else Inr (take n (drop pos s)))"

definition substr_from :: "string \<Rightarrow> nat \<Rightarrow> exception + string" where
  "substr_from s pos = (if length s < pos then Inl std_out_of_range else Inr (drop pos s))"

subsection \<open>SourceMarkerGenerator::htmlMessage\<close>

text \<open>
  \<^verbatim>\<open>string_utils::htmlEscape\<close> is defined outside the two files studied here, so
  \<open>htmlMessage\<close> takes it as its first argument; every statement about \<open>htmlMessage\<close>
  below holds for any escaping function. The comparison
  \<^verbatim>\<open>(col + loc.extent) < message.length()\<close> adds two unsigned 32-bit values (wrapping)
  and compares the sum with the length of the line.
\<close>

definition htmlMessage :: "(string \<Rightarrow> string) \<Rightarrow> 'a CursorLocation_scheme \<Rightarrow> string \<Rightarrow> exception + string" where
  "htmlMessage htmlEscape loc message =
     (let col = column loc - 1 in
      if unat (col + extent loc) < length message then
        (if extent loc = 0 then
           Inr (''<strong>'' @ htmlEscape message @ ''</strong>'')
         else
           (case substr message 0 (unat col) of
              Inl e \<Rightarrow> Inl e
            | Inr before \<Rightarrow>
                (case substr message (unat col) (unat (extent loc)) of
                   Inl e \<Rightarrow> Inl e
                 | Inr span \<Rightarrow>
                     (case substr_from message (unat (col + extent loc)) of
                        Inl e \<Rightarrow> Inl e
                      | Inr after \<Rightarrow>
                          Inr (htmlEscape before @ ''<strong>'' @ htmlEscape span
                               @ ''</strong>'' @ htmlEscape after)))))
      else
        Inr (htmlEscape message))"

text \<open>
  A small escaping function used to evaluate \<open>htmlMessage\<close> on concrete lines: it
  replaces the three markup characters by their entities.
\<close>

fun escapeMarkup :: "string \<Rightarrow> string" where
  "escapeMarkup [] = []"
| "escapeMarkup (c # cs) =
     (if c = CHR ''<'' then ''&lt;'' @ escapeMarkup cs
      else if c = CHR ''>'' then ''&gt;'' @ escapeMarkup cs
      else if c = CHR ''&'' then ''&amp;'' @ escapeMarkup cs
      else c # escapeMarkup cs)"

subsection \<open>Cursors and the reference collector\<close>

text \<open>
  A \<open>Cursor\<close> is the libclang wrapper as far as FindReferences.cpp queries it:
  \<^verbatim>\<open>isValid()\<close>, \<^verbatim>\<open>isDeclaration()\<close> and \<^verbatim>\<open>getUSR()\<close>. A \<open>CXCursor\<close> is a node of the
  translation unit's tree: \<open>isFromMainFile\<close> is
  \<^verbatim>\<open>cursor.getSourceLocation().isFromMainFile()\<close>, \<open>getLocation\<close> is
  \<^verbatim>\<open>cursor.getLocation()\<close>, \<open>getReferenced\<close> is \<^verbatim>\<open>cursor.getReferenced()\<close>, and
  \<open>children\<close> are the node's child cursors in source order.
\<close>

record Cursor =
  isValid :: bool
  isDeclaration :: bool
  getUSR :: string

datatype CXCursor =
  CXCursor (isFromMainFile: bool) (getLocation: CursorLocation)
    (getReferenced: Cursor) (children: "CXCursor list")

datatype CXChildVisitResult =
  CXChildVisit_Break | CXChildVisit_Continue | CXChildVisit_Recurse

record FindReferencesData =
  USR :: string
  references :: "CursorLocation list"

definition findReferencesVisitor ::
  "CXCursor \<Rightarrow> CXCursor \<Rightarrow> FindReferencesData \<Rightarrow> CXChildVisitResult \<times> FindReferencesData" where
  "findReferencesVisitor cxCursor parent pData =
     (if \<not> isFromMainFile cxCursor then (CXChildVisit_Continue, pData)
      else
        (let referencedCursor = getReferenced cxCursor in
         (CXChildVisit_Recurse,
          if isValid referencedCursor \<and> isDeclaration referencedCursor
             \<and> getUSR referencedCursor = USR pData
          then pData\<lparr>references := references pData @ [getLocation cxCursor]\<rparr>
          else pData)))"

text \<open>
  Modelled from the spec: \<^verbatim>\<open>libclang::clang().visitChildren\<close> is not in the two files
  studied here. It calls the visitor on each child of the given cursor in order; the
  visitor's result means "continue to sibling" (\<open>CXChildVisit_Continue\<close>: go on with the
  next sibling, the children of this cursor are not visited), "recurse into children"
  (\<open>CXChildVisit_Recurse\<close>: visit the children of this cursor with the same visitor and
  data, then go on with the next sibling) or stop (\<open>CXChildVisit_Break\<close>). The boolean
  result tells whether the traversal was stopped by \<open>CXChildVisit_Break\<close>.
\<close>

fun visitChildren ::
    "CXCursor \<Rightarrow> (CXCursor \<Rightarrow> CXCursor \<Rightarrow> 'd \<Rightarrow> CXChildVisitResult \<times> 'd) \<Rightarrow> 'd \<Rightarrow> bool \<times> 'd"
  and visitSiblings ::
    "CXCursor \<Rightarrow> CXCursor list \<Rightarrow> (CXCursor \<Rightarrow> CXCursor \<Rightarrow> 'd \<Rightarrow> CXChildVisitResult \<times> 'd) \<Rightarrow> 'd \<Rightarrow> bool \<times> 'd"
  where
  "visitChildren (CXCursor m l r cs) visitor data =
     visitSiblings (CXCursor m l r cs) cs visitor data"
| "visitSiblings parent [] visitor data = (False, data)"
| "visitSiblings parent (c # cs) visitor data =
     (case visitor c parent data of
        (CXChildVisit_Break, data') \<Rightarrow> (True, data')
      | (CXChildVisit_Continue, data') \<Rightarrow> visitSiblings parent cs visitor data'
      | (CXChildVisit_Recurse, data') \<Rightarrow>
          (case visitChildren c visitor data' of
             (True, data'') \<Rightarrow> (True, data'')
           | (False, data'') \<Rightarrow> visitSiblings parent cs visitor data''))"

subsection \<open>findReferences\<close>

text \<open>
  The source index \<^verbatim>\<open>rSourceIndex()\<close> is used through two operations, taken here as
  the two fields of a record: the cursor referenced at a file location, and the
  translation unit of a file (which may be empty). \<open>findReferences\<close> returns the error
  value, the contents of \<^verbatim>\<open>*pRefs\<close> after the call, and the calls it made, in order.
\<close>

datatype TranslationUnit =
  EmptyTranslationUnit | TranslationUnit (getCursor: CXCursor)

record RSourceIndex =
  referencedCursorForFileLocation :: "FileLocation \<Rightarrow> Cursor"
  getTranslationUnit :: "string \<Rightarrow> bool \<Rightarrow> TranslationUnit"

datatype call =
    call_referencedCursorForFileLocation FileLocation
  | call_getTranslationUnit string bool
  | call_visitChildren CXCursor

definition findReferences ::
  "RSourceIndex \<Rightarrow> FileLocation \<Rightarrow> CursorLocation list
     \<Rightarrow> Error \<times> CursorLocation list \<times> call list" where
  "findReferences index location pRefs =
     (let cursor = referencedCursorForFileLocation index location;
          calls1 = [call_referencedCursorForFileLocation location] in
      if \<not> isValid cursor \<or> \<not> isDeclaration cursor then (Success, pRefs, calls1)
      else
        (let USR = getUSR cursor in
         if USR = [] then (Success, pRefs, calls1)
         else
           (let tu = getTranslationUnit index (filePath location) True;
                calls2 = calls1 @ [call_getTranslationUnit (filePath location) True] in
            case tu of
              EmptyTranslationUnit \<Rightarrow> (Success, pRefs, calls2)
            | TranslationUnit root \<Rightarrow>
                (let findUsagesData =
                       snd (visitChildren root findReferencesVisitor
                              \<lparr>USR = USR, references = []\<rparr>) in
                 (Success, references findUsagesData,
                  calls2 @ [call_visitChildren root])))))"

subsection \<open>SourceMarkerGenerator::fileContents\<close>

text \<open>
  \<^verbatim>\<open>boost::algorithm::split(lines, contents, boost::is_any_of("\n"))\<close> cuts the input at
  every separator character and keeps empty tokens, so the result always has one more
  token than the input has separators.
\<close>

definition is_any_of :: "string \<Rightarrow> char \<Rightarrow> bool" where
  "is_any_of s c = (c \<in> set s)"

fun split :: "string \<Rightarrow> (char \<Rightarrow> bool) \<Rightarrow> string list" where
  "split [] p = [[]]"
| "split (c # cs) p =
     (if p c then [] # split cs p
      else (case split cs p of
              [] \<Rightarrow> [[c]]
            | t # ts \<Rightarrow> (c # t) # ts))"

text \<open>
  The unsaved files of the index are an array of \<^verbatim>\<open>CXUnsavedFile\<close> values; the source
  takes \<^verbatim>\<open>std::string(unsavedFile.Contents, unsavedFile.Length)\<close>, the first \<open>Length\<close>
  characters of the buffer. \<open>unsavedFileLines\<close> is the \<^verbatim>\<open>for\<close> loop over the array: the
  first entry whose name equals the requested name is split into lines, and the loop
  stops there.
\<close>

record CXUnsavedFile =
  Filename :: string
  Contents :: string
  Length :: nat

type_synonym SourceFileContentsMap = "string \<rightharpoonup> string list"

fun unsavedFileLines :: "CXUnsavedFile list \<Rightarrow> string \<Rightarrow> string list option" where
  "unsavedFileLines [] filename = None"
| "unsavedFileLines (unsavedFile # rest) filename =
     (if Filename unsavedFile = filename then
        Some (split (take (Length unsavedFile) (Contents unsavedFile)) (is_any_of [CHR 0x0A]))
      else unsavedFileLines rest filename)"

text \<open>
  \<^verbatim>\<open>readStringVectorFromFile\<close> is defined outside the files studied here; it is a
  parameter giving, for a path, the error value returned and the contents of \<^verbatim>\<open>lines\<close>
  after the call. \<open>fileContents\<close> returns the lines, the cache after the call, and the
  file-system and log effects of the call.
\<close>

datatype effect = readFile string | LOG_ERROR Error

definition fileContents ::
  "(Error \<Rightarrow> bool) \<Rightarrow> CXUnsavedFile list \<Rightarrow> (string \<Rightarrow> Error \<times> string list)
     \<Rightarrow> SourceFileContentsMap \<Rightarrow> string
     \<Rightarrow> string list \<times> SourceFileContentsMap \<times> effect list" where
  "fileContents isError unsavedFiles readStringVectorFromFile sourceFileContents filename =
     (case sourceFileContents filename of
        Some lines \<Rightarrow> (lines, sourceFileContents, [])
      | None \<Rightarrow>
          (case unsavedFileLines unsavedFiles filename of
             Some lines \<Rightarrow> (lines, sourceFileContents(filename \<mapsto> lines), [])
           | None \<Rightarrow>
               (let (error, lines) = readStringVectorFromFile filename in
                (lines, sourceFileContents(filename \<mapsto> lines),
                 readFile filename # (if isError error then [LOG_ERROR error] else [])))))"

section \<open>Data model of Win32OutputCapture.cpp\<close>

subsection \<open>standardStreamCaptureThread\<close>

text \<open>
  The reader loop calls \<^verbatim>\<open>::_read\<close> again and again. Its argument here is the list of
  what the successive calls return (the \<^verbatim>\<open>int\<close> result, and the value \<^verbatim>\<open>::GetLastError()\<close>
  would give afterwards); when the list is used up the thread is blocked in the next
  \<^verbatim>\<open>_read\<close>. The source stores the result in a \<^verbatim>\<open>DWORD\<close>, an unsigned 32-bit value,
  and all three comparisons are made on that value.

  In the branch \<^verbatim>\<open>bytesRead > 0\<close> the source first builds
  \<^verbatim>\<open>std::string(buffer, bytesRead)\<close> and then calls the handler with it. The buffer has
  \<open>kBufferSize\<close> bytes. When \<open>bytesRead\<close> is at most that, the event \<open>outputHandler n\<close>
  records the call with a chunk of \<open>n = bytesRead\<close> bytes and the loop reads again. When
  \<open>bytesRead\<close> is larger, building the string reads beyond the buffer: the behaviour is
  undefined, and in practice the process faults or an exception leaves the loop through
  \<^verbatim>\<open>CATCH_UNEXPECTED_EXCEPTION\<close>. The run then ends in the state \<open>BufferOverrun n\<close>: the
  handler is not entered, nothing is logged by the loop and no further read is made.
  Handlers are taken not to throw.
\<close>

definition kBufferSize :: nat where
  "kBufferSize = 512"

record ReadResult =
  returned :: int
  lastError :: int

datatype capture_event =
    outputHandler nat
  | LOG_WARNING_MESSAGE string
  | LOG_ERROR_event Error

datatype thread_state = Exited | Reading | BufferOverrun nat

fun standardStreamCaptureThread ::
  "ReadResult list \<Rightarrow> capture_event list \<Rightarrow> capture_event list \<times> thread_state" where
  "standardStreamCaptureThread [] events = (events, Reading)"
| "standardStreamCaptureThread (r # rs) events =
     (let bytesRead = (word_of_int (returned r) :: 32 word) in
      if 0 < bytesRead then
        (if unat bytesRead \<le> kBufferSize then
           standardStreamCaptureThread rs (events @ [outputHandler (unat bytesRead)])
         else (events, BufferOverrun (unat bytesRead)))
      else if bytesRead = 0 then
        (events @ [LOG_WARNING_MESSAGE ''Reached end of input on standard stream''], Exited)
      else if bytesRead < 0 then
        standardStreamCaptureThread rs (events @ [LOG_ERROR_event (systemError (lastError r))])
      else standardStreamCaptureThread rs events)"

subsection \<open>redirectToPipe and captureStandardStreams\<close>

text \<open>
  \<open>PipeEnv\<close> holds what the operating system answers during one call of
  \<open>redirectToPipe\<close>: the return value of \<^verbatim>\<open>::_pipe\<close> and the two descriptors it stored,
  the handle \<^verbatim>\<open>::_get_osfhandle\<close> gives for the write end, the results of
  \<^verbatim>\<open>::SetStdHandle\<close>, \<^verbatim>\<open>::_dup2\<close> and \<^verbatim>\<open>::setvbuf\<close>, and the values of
  \<^verbatim>\<open>::GetLastError()\<close> and \<^verbatim>\<open>errno\<close> at the moment the source reads them.
  \<open>redirectToPipe\<close> returns the error value, the contents of \<^verbatim>\<open>*pReadFd\<close> after the call,
  and the redirection steps it performed.
\<close>

record PipeEnv =
  pipe_returns :: int
  pdfs :: "int \<times> int"
  get_osfhandle_returns :: int
  SetStdHandle_returns :: bool
  dup2_returns :: int
  setvbuf_returns :: int
  GetLastError :: int
  errno :: int

definition INVALID_HANDLE_VALUE :: int where
  "INVALID_HANDLE_VALUE = - 1"

definition STD_OUTPUT_HANDLE :: int where
  "STD_OUTPUT_HANDLE = - 11"

definition STD_ERROR_HANDLE :: int where
  "STD_ERROR_HANDLE = - 12"

datatype step =
    SetStdHandle int int
  | dup2 int
  | setvbuf
  | sync_with_stdio
  | thread int

definition redirectToPipe :: "PipeEnv \<Rightarrow> int \<Rightarrow> int \<Rightarrow> Error \<times> int \<times> step list" where
  "redirectToPipe env stdHandle pReadFd =
     (if pipe_returns env = 0 then (systemError (GetLastError env), pReadFd, [])
      else
        (let hWritePipe = get_osfhandle_returns env in
         if hWritePipe = INVALID_HANDLE_VALUE then (systemError (errno env), pReadFd, [])
         else if \<not> SetStdHandle_returns env then
           (systemError (GetLastError env), pReadFd, [SetStdHandle stdHandle hWritePipe])
         else if dup2_returns env \<noteq> 0 then
           (systemError (errno env), pReadFd,
            [SetStdHandle stdHandle hWritePipe, dup2 (snd (pdfs env))])
         else if setvbuf_returns env \<noteq> 0 then
           (ioError ''setvbuf'', pReadFd,
            [SetStdHandle stdHandle hWritePipe, dup2 (snd (pdfs env)), setvbuf])
         else
           (Success, fst (pdfs env),
            [SetStdHandle stdHandle hWritePipe, dup2 (snd (pdfs env)), setvbuf,
             sync_with_stdio])))"

text \<open>
  \<open>captureStandardStreams\<close>: \<open>stderrHandler\<close> tells whether a handler for standard error
  was given; \<open>stdoutEnv\<close> and \<open>stderrEnv\<close> are the system's answers during the two
  redirections; \<open>stdoutThreadStarts\<close> and \<open>stderrThreadStarts\<close> tell whether creating the
  reader thread succeeds (otherwise \<^verbatim>\<open>boost::thread_resource_error\<close> is thrown and caught).
  The result is the error value and the steps performed, in order.
\<close>

definition captureStandardStreams ::
  "(Error \<Rightarrow> bool) \<Rightarrow> bool \<Rightarrow> PipeEnv \<Rightarrow> PipeEnv \<Rightarrow> bool \<Rightarrow> bool
     \<Rightarrow> Error \<times> step list" where
  "captureStandardStreams isError stderrHandler stdoutEnv stderrEnv stdoutThreadStarts
       stderrThreadStarts =
     (let (error, stdoutFd, steps1) = redirectToPipe stdoutEnv STD_OUTPUT_HANDLE 0 in
      if isError error then (error, steps1)
      else if \<not> stdoutThreadStarts then (thread_resource_error, steps1)
      else
        (let steps2 = steps1 @ [thread stdoutFd] in
         if stderrHandler then
           (let (error, stderrFd, steps3) = redirectToPipe stderrEnv STD_ERROR_HANDLE 0 in
            if isError error then (error, steps2 @ steps3)
            else if \<not> stderrThreadStarts then (thread_resource_error, steps2 @ steps3)
            else (Success, steps2 @ steps3 @ [thread stderrFd]))
         else (Success, steps2)))"

section \<open>Notions used to state the properties\<close>

text \<open>
  \<open>descendants c\<close> lists every cursor below \<open>c\<close> in the tree, in pre-order.
\<close>

fun descendants :: "CXCursor \<Rightarrow> CXCursor list"
  and descendantsOf :: "CXCursor list \<Rightarrow> CXCursor list" where
  "descendants (CXCursor m l r cs) = descendantsOf cs"
| "descendantsOf [] = []"
| "descendantsOf (c # cs) = c # descendants c @ descendantsOf cs"

text \<open>
  A sequence of \<open>fileContents\<close> calls on one \<open>SourceMarkerGenerator\<close>: each request
  comes with the unsaved files and the file system as they are at that moment, and the
  cache is threaded through.
\<close>

fun fileContentsCalls ::
  "(Error \<Rightarrow> bool)
     \<Rightarrow> (CXUnsavedFile list \<times> (string \<Rightarrow> Error \<times> string list) \<times> string) list
     \<Rightarrow> SourceFileContentsMap \<Rightarrow> SourceFileContentsMap" where
  "fileContentsCalls isError [] sourceFileContents = sourceFileContents"
| "fileContentsCalls isError ((unsavedFiles, readStringVectorFromFile, filename) # requests)
       sourceFileContents =
     fileContentsCalls isError requests
       (fst (snd (fileContents isError unsavedFiles readStringVectorFromFile
                    sourceFileContents filename)))"

subsection \<open>Sample inputs\<close>

text \<open>
  A small translation unit: the root has one child that comes from a header, and that
  child has a child located in the main file which refers to the function \<open>f\<close>.
  \<open>flat_root\<close> has the same reference directly below the root.
\<close>

definition decl_f :: Cursor where
  "decl_f = \<lparr>isValid = True, isDeclaration = True, getUSR = ''c:@F@f#''\<rparr>"

definition null_cursor :: Cursor where
  "null_cursor = \<lparr>isValid = False, isDeclaration = False, getUSR = []\<rparr>"

definition use_of_f :: CXCursor where
  "use_of_f =
     CXCursor True \<lparr>filePath = ''main.cpp'', line = 3, column = 5, extent = 1\<rparr> decl_f []"

definition header_cursor :: CXCursor where
  "header_cursor =
     CXCursor False \<lparr>filePath = ''lib.h'', line = 1, column = 1, extent = 3\<rparr> null_cursor
       [use_of_f]"

definition nested_root :: CXCursor where
  "nested_root =
     CXCursor True \<lparr>filePath = ''main.cpp'', line = 1, column = 1, extent = 0\<rparr> null_cursor
       [header_cursor]"

definition flat_root :: CXCursor where
  "flat_root =
     CXCursor True \<lparr>filePath = ''main.cpp'', line = 1, column = 1, extent = 0\<rparr> null_cursor
       [use_of_f, header_cursor]"

definition query :: FileLocation where
  "query = \<lparr>filePath = ''main.cpp'', line = 3, column = 5\<rparr>"

definition earlier_ref :: CursorLocation where
  "earlier_ref = \<lparr>filePath = ''other.cpp'', line = 7, column = 2, extent = 4\<rparr>"

definition index_of :: "Cursor \<Rightarrow> TranslationUnit \<Rightarrow> RSourceIndex" where
  "index_of cursor tu =
     \<lparr>referencedCursorForFileLocation = (\<lambda>location. cursor),
      getTranslationUnit = (\<lambda>filename reparse. tu)\<rparr>"

text \<open>
  Answers of the operating system to \<open>redirectToPipe\<close>: \<^verbatim>\<open>::_pipe\<close> returns 0 and the
  last error is 0; \<^verbatim>\<open>::_pipe\<close> returns \<open>-1\<close> and every later call goes well; \<^verbatim>\<open>::_pipe\<close> returns \<open>-1\<close> and
  \<^verbatim>\<open>::SetStdHandle\<close> fails, with last error 6; \<^verbatim>\<open>::_pipe\<close> returns \<open>-1\<close> and
  \<^verbatim>\<open>::_get_osfhandle\<close> gives the invalid handle, with \<^verbatim>\<open>errno\<close> 9.
\<close>

definition quiet_zero_pipe_env :: PipeEnv where
  "quiet_zero_pipe_env =
     \<lparr>pipe_returns = 0, pdfs = (3, 4), get_osfhandle_returns = 100,
      SetStdHandle_returns = True, dup2_returns = 0, setvbuf_returns = 0,
      GetLastError = 0, errno = 0\<rparr>"

definition nonzero_pipe_env :: PipeEnv where
  "nonzero_pipe_env =
     \<lparr>pipe_returns = - 1, pdfs = (3, 4), get_osfhandle_returns = 100,
      SetStdHandle_returns = True, dup2_returns = 0, setvbuf_returns = 0,
      GetLastError = 0, errno = 0\<rparr>"

definition failed_SetStdHandle_env :: PipeEnv where
  "failed_SetStdHandle_env =
     \<lparr>pipe_returns = - 1, pdfs = (3, 4), get_osfhandle_returns = 100,
      SetStdHandle_returns = False, dup2_returns = 0, setvbuf_returns = 0,
      GetLastError = 6, errno = 0\<rparr>"

definition bad_handle_env :: PipeEnv where
  "bad_handle_env =
     \<lparr>pipe_returns = - 1, pdfs = (3, 4), get_osfhandle_returns = - 1,
      SetStdHandle_returns = False, dup2_returns = - 1, setvbuf_returns = 0,
      GetLastError = 0, errno = 9\<rparr>"

section \<open>The reference collector\<close>

lemma collected_from_main_file:
  "set (references (snd (visitChildren p findReferencesVisitor d)))
     \<subseteq> set (references d) \<union> getLocation ` {x \<in> set (descendants p). isFromMainFile x}"
  "set (references (snd (visitSiblings p cs findReferencesVisitor d)))
     \<subseteq> set (references d) \<union> getLocation ` {x \<in> set (descendantsOf cs). isFromMainFile x}"
proof (induction p "findReferencesVisitor" d and p cs "findReferencesVisitor" d
    rule: visitChildren_visitSiblings.induct)
  case (1 m l r cs data)
  then show ?case by simp
next
  case (2 parent data)
  then show ?case by simp
next
  case (3 parent c cs data)
  note ih = 3
  show ?case
  proof (cases "isFromMainFile c")
    case False
    then have v: "findReferencesVisitor c parent data = (CXChildVisit_Continue, data)"
      by (simp add: findReferencesVisitor_def)
    from ih(1)[OF v[symmetric] refl] v show ?thesis by auto
  next
    case True
    define data' where "data' = snd (findReferencesVisitor c parent data)"
    have v: "findReferencesVisitor c parent data = (CXChildVisit_Recurse, data')"
      using True by (simp add: data'_def findReferencesVisitor_def Let_def)
    have d': "set (references data') \<subseteq> set (references data) \<union> {getLocation c}"
      by (auto simp: data'_def findReferencesVisitor_def Let_def)
    obtain b data'' where w: "visitChildren c findReferencesVisitor data' = (b, data'')"
      by (cases "visitChildren c findReferencesVisitor data'")
    have sub: "set (references data'')
        \<subseteq> set (references data') \<union> getLocation ` {x \<in> set (descendants c). isFromMainFile x}"
      using ih(2)[OF v[symmetric] refl] w by simp
    show ?thesis
    proof (cases b)
      case True
      with v w sub d' \<open>isFromMainFile c\<close> show ?thesis by auto
    next
      case False
      have "set (references (snd (visitSiblings parent cs findReferencesVisitor data'')))
          \<subseteq> set (references data'')
            \<union> getLocation ` {x \<in> set (descendantsOf cs). isFromMainFile x}"
        using ih(3)[OF v[symmetric] refl w[symmetric]] False by simp
      with v w sub d' False \<open>isFromMainFile c\<close> show ?thesis by auto
    qed
  qed
qed

text \<open>
  C1 (as amended). A visited cursor whose source location is not from the main file is
  skipped for recording and its children are not visited: the visitor answers
  \<open>CXChildVisit_Continue\<close> with the data unchanged, so the traversal goes on with the next
  sibling and the whole subtree below the cursor has no effect on the result.
\<close>

theorem findReferencesVisitor_skips_subtree:
  "\<not> isFromMainFile c \<Longrightarrow>
     findReferencesVisitor c parent pData = (CXChildVisit_Continue, pData)
     \<and> visitSiblings parent (c # cs) findReferencesVisitor pData
         = visitSiblings parent cs findReferencesVisitor pData"
  by (simp add: findReferencesVisitor_def)

theorem findReferencesVisitor_skips_subtree_witness:
  "\<not> isFromMainFile header_cursor
   \<and> findReferencesVisitor header_cursor nested_root \<lparr>USR = ''c:@F@f#'', references = []\<rparr>
       = (CXChildVisit_Continue, \<lparr>USR = ''c:@F@f#'', references = []\<rparr>)
   \<and> visitSiblings nested_root [header_cursor] findReferencesVisitor
         \<lparr>USR = ''c:@F@f#'', references = []\<rparr>
       = (False, \<lparr>USR = ''c:@F@f#'', references = []\<rparr>)"
proof -
  have h: "\<not> isFromMainFile header_cursor"
    by (simp add: header_cursor_def)
  show ?thesis
    using h findReferencesVisitor_skips_subtree [OF h, of nested_root
        "\<lparr>USR = ''c:@F@f#'', references = []\<rparr>" "[]"]
    by simp
qed

text \<open>
  The claim as first stated fails: in \<open>nested_root\<close> the cursor \<open>use_of_f\<close> lies in the
  main file and refers to the declaration searched for, but it sits below a cursor from
  a header, and the collector does not record it.
\<close>

theorem nested_reference_counterexample:
  "use_of_f \<in> set (descendants nested_root)
   \<and> isFromMainFile use_of_f
   \<and> isValid (getReferenced use_of_f) \<and> isDeclaration (getReferenced use_of_f)
   \<and> getUSR (getReferenced use_of_f) = ''c:@F@f#''
   \<and> references (snd (visitChildren nested_root findReferencesVisitor
                        \<lparr>USR = ''c:@F@f#'', references = []\<rparr>)) = []"
  by (simp add: nested_root_def header_cursor_def use_of_f_def decl_f_def
      findReferencesVisitor_def)

text \<open>
  C8. Every location in the sequence accumulated by \<open>findReferences\<close> was recorded at
  a cursor of the translation unit whose source location is from the main file; a
  cursor from a header or any other origin is never recorded.
\<close>

theorem findReferences_records_main_file_only:
  assumes "findReferences index location pRefs = (error, refs, calls)"
    and "call_visitChildren root \<in> set calls"
    and "l \<in> set refs"
  shows "\<exists>c \<in> set (descendants root). isFromMainFile c \<and> getLocation c = l"
proof -
  let ?cursor = "referencedCursorForFileLocation index location"
  let ?tu = "getTranslationUnit index (filePath location) True"
  from assms(1,2) have tu: "?tu = TranslationUnit root"
    by (auto simp: findReferences_def Let_def split: if_splits TranslationUnit.splits)
  with assms(1,2) have
    "refs = references (snd (visitChildren root findReferencesVisitor
                               \<lparr>USR = getUSR ?cursor, references = []\<rparr>))"
    by (auto simp: findReferences_def Let_def split: if_splits)
  with assms(3) collected_from_main_file(1)
      [of root "\<lparr>USR = getUSR ?cursor, references = []\<rparr>"]
  show ?thesis by auto
qed

theorem findReferences_records_main_file_only_witness:
  "findReferences (index_of decl_f (TranslationUnit flat_root)) query [earlier_ref]
     = (Success, [getLocation use_of_f],
        [call_referencedCursorForFileLocation query,
         call_getTranslationUnit ''main.cpp'' True,
         call_visitChildren flat_root])
   \<and> (\<exists>c \<in> set (descendants flat_root).
         isFromMainFile c \<and> getLocation c = getLocation use_of_f)"
proof -
  have run: "findReferences (index_of decl_f (TranslationUnit flat_root)) query [earlier_ref]
     = (Success, [getLocation use_of_f],
        [call_referencedCursorForFileLocation query,
         call_getTranslationUnit ''main.cpp'' True,
         call_visitChildren flat_root])"
    by (simp add: findReferences_def index_of_def decl_f_def query_def flat_root_def
        header_cursor_def use_of_f_def findReferencesVisitor_def Let_def)
  show ?thesis
    using run findReferences_records_main_file_only [OF run, of flat_root "getLocation use_of_f"]
    by simp
qed

section \<open>The reference resolver\<close>

text \<open>
  C6 (as amended). When the declaration cursor resolved for the query location has an
  empty UniqueSymbolId, \<open>findReferences\<close> returns \<open>Success\<close>, calls neither
  \<open>getTranslationUnit\<close> nor \<open>visitChildren\<close>, and leaves \<^verbatim>\<open>*pRefs\<close> as the caller passed it;
  the resulting sequence is empty when the caller passed an empty one.
\<close>

theorem findReferences_empty_USR:
  "getUSR (referencedCursorForFileLocation index location) = [] \<Longrightarrow>
     findReferences index location pRefs
       = (Success, pRefs, [call_referencedCursorForFileLocation location])"
  by (simp add: findReferences_def Let_def)

theorem findReferences_empty_USR_witness:
  "getUSR (referencedCursorForFileLocation
             (index_of (decl_f\<lparr>getUSR := []\<rparr>) (TranslationUnit flat_root)) query) = []
   \<and> findReferences (index_of (decl_f\<lparr>getUSR := []\<rparr>) (TranslationUnit flat_root)) query []
       = (Success, [], [call_referencedCursorForFileLocation query])"
proof -
  have h: "getUSR (referencedCursorForFileLocation
             (index_of (decl_f\<lparr>getUSR := []\<rparr>) (TranslationUnit flat_root)) query) = []"
    by (simp add: index_of_def)
  show ?thesis
    using h findReferences_empty_USR [OF h, of "[]"] by simp
qed

text \<open>
  The claim as first stated fails when the caller's sequence is not empty: the
  declaration has an empty UniqueSymbolId, and the sequence after the call still holds
  the entry the caller passed in.
\<close>

theorem findReferences_empty_USR_counterexample:
  "getUSR (referencedCursorForFileLocation
             (index_of (decl_f\<lparr>getUSR := []\<rparr>) (TranslationUnit flat_root)) query) = []
   \<and> fst (snd (findReferences (index_of (decl_f\<lparr>getUSR := []\<rparr>) (TranslationUnit flat_root))
                  query [earlier_ref])) \<noteq> []"
  by (simp add: findReferences_def index_of_def decl_f_def Let_def)

text \<open>
  C7. \<open>findReferences\<close> always returns \<open>Success\<close>. On each early-return path (invalid
  cursor, cursor that is not a declaration, empty UniqueSymbolId, empty translation
  unit) it leaves \<^verbatim>\<open>*pRefs\<close> unchanged and does not call \<open>visitChildren\<close>; whenever
  \<^verbatim>\<open>*pRefs\<close> differs after the call, the collector has run. So on an early return the
  caller's sequence is empty afterwards only if it was empty before.
\<close>

theorem findReferences_early_return_frame:
  assumes "findReferences index location pRefs = (error, refs, calls)"
  shows "error = Success
    \<and> (\<not> isValid (referencedCursorForFileLocation index location)
         \<or> \<not> isDeclaration (referencedCursorForFileLocation index location)
         \<or> getUSR (referencedCursorForFileLocation index location) = []
         \<or> getTranslationUnit index (filePath location) True = EmptyTranslationUnit
       \<longrightarrow> refs = pRefs \<and> (\<forall>root. call_visitChildren root \<notin> set calls))
    \<and> (refs \<noteq> pRefs \<longrightarrow> (\<exists>root. call_visitChildren root \<in> set calls))"
  using assms
  by (auto simp: findReferences_def Let_def split: if_splits TranslationUnit.splits)

theorem findReferences_early_return_frame_witness:
  "findReferences (index_of null_cursor (TranslationUnit flat_root)) query [earlier_ref]
     = (Success, [earlier_ref], [call_referencedCursorForFileLocation query])
   \<and> findReferences (index_of decl_f EmptyTranslationUnit) query [earlier_ref]
     = (Success, [earlier_ref],
        [call_referencedCursorForFileLocation query, call_getTranslationUnit ''main.cpp'' True])
   \<and> findReferences (index_of decl_f (TranslationUnit flat_root)) query [earlier_ref]
     = (Success, [getLocation use_of_f],
        [call_referencedCursorForFileLocation query,
         call_getTranslationUnit ''main.cpp'' True,
         call_visitChildren flat_root])
   \<and> [getLocation use_of_f] \<noteq> [earlier_ref]
   \<and> (\<exists>root. call_visitChildren root
         \<in> set [call_referencedCursorForFileLocation query,
                call_getTranslationUnit ''main.cpp'' True,
                call_visitChildren flat_root])"
proof -
  have early1: "findReferences (index_of null_cursor (TranslationUnit flat_root)) query
      [earlier_ref] = (Success, [earlier_ref], [call_referencedCursorForFileLocation query])"
    by (simp add: findReferences_def index_of_def null_cursor_def Let_def)
  have early2: "findReferences (index_of decl_f EmptyTranslationUnit) query [earlier_ref]
     = (Success, [earlier_ref],
        [call_referencedCursorForFileLocation query, call_getTranslationUnit ''main.cpp'' True])"
    by (simp add: findReferences_def index_of_def decl_f_def query_def Let_def)
  have run: "findReferences (index_of decl_f (TranslationUnit flat_root)) query [earlier_ref]
     = (Success, [getLocation use_of_f],
        [call_referencedCursorForFileLocation query,
         call_getTranslationUnit ''main.cpp'' True,
         call_visitChildren flat_root])"
    by (simp add: findReferences_def index_of_def decl_f_def query_def flat_root_def
        header_cursor_def use_of_f_def findReferencesVisitor_def Let_def)
  have differs: "[getLocation use_of_f] \<noteq> [earlier_ref]"
    by (simp add: use_of_f_def earlier_ref_def)
  show ?thesis
    using early1 early2 run differs
      findReferences_early_return_frame [OF early1]
      findReferences_early_return_frame [OF run]
    by simp
qed

section \<open>Marker formatting\<close>

lemma unat_col_plus_extent:
  fixes col ext :: "32 word"
  assumes "unat col + unat ext < 2 ^ 32"
  shows "unat (col + ext) = unat col + unat ext"
  using assms by (simp add: unat_add_lem [THEN iffD1])

text \<open>
  Inside the line the span is highlighted: when \<open>col + extent\<close> is strictly less than the
  length of the line, the result is the escaped text before the span, the escaped span
  between the strong markers, and the escaped rest.
\<close>

lemma htmlMessage_span_inside:
  assumes "extent loc \<noteq> 0"
    and "unat (column loc - 1) + unat (extent loc) < length message"
    and "length message \<le> 2 ^ 32"
  shows "htmlMessage esc loc message =
     Inr (esc (take (unat (column loc - 1)) message) @ ''<strong>''
          @ esc (take (unat (extent loc)) (drop (unat (column loc - 1)) message))
          @ ''</strong>''
          @ esc (drop (unat (column loc - 1) + unat (extent loc)) message))"
proof -
  have sum: "unat (column loc - 1 + extent loc) = unat (column loc - 1) + unat (extent loc)"
    using assms(2,3) by (intro unat_col_plus_extent) simp
  show ?thesis
    using assms(1,2) by (simp add: htmlMessage_def Let_def sum substr_def substr_from_def)
qed

lemma htmlMessage_sample:
  "htmlMessage escapeMarkup \<lparr>filePath = ''a.cpp'', line = 1, column = 5, extent = 3\<rparr>
     ''int foo = 1;'' = Inr ''int <strong>foo</strong> = 1;''"
  by (simp add: htmlMessage_def substr_def substr_from_def)

text \<open>
  C2. The claim asks for the highlighted form whenever \<open>col + extent\<close> is within the
  length of the line, and for the fallback only when it exceeds the length. The source
  tests \<^verbatim>\<open>(col + loc.extent) < message.length()\<close>, so a span that ends exactly at the end
  of the line, where \<open>col + extent\<close> equals the length, takes the fallback: the whole
  line is returned escaped, with no strong marker.
\<close>

theorem htmlMessage_span_at_line_end:
  assumes "unat (column loc - 1) + unat (extent loc) = length message"
    and "length message < 2 ^ 32"
  shows "htmlMessage esc loc message = Inr (esc message)"
proof -
  have "unat (column loc - 1 + extent loc) = unat (column loc - 1) + unat (extent loc)"
    using assms by (intro unat_col_plus_extent) simp
  with assms(1) show ?thesis
    by (simp add: htmlMessage_def Let_def)
qed

theorem htmlMessage_span_at_line_end_witness:
  "unat (column \<lparr>filePath = ''a.hpp'', line = 1, column = 7, extent = 3 :: 32 word\<rparr> - 1)
     + unat (extent \<lparr>filePath = ''a.hpp'', line = 1, column = 7 :: 32 word, extent = 3\<rparr>)
     = length ''class Foo''
   \<and> htmlMessage escapeMarkup \<lparr>filePath = ''a.hpp'', line = 1, column = 7, extent = 3\<rparr>
       ''class Foo'' = Inr ''class Foo''
   \<and> Inr ''class Foo'' \<noteq>
       (Inr (escapeMarkup ''class '' @ ''<strong>'' @ escapeMarkup ''Foo'' @ ''</strong>''
             @ escapeMarkup []) :: exception + string)"
proof -
  have h1: "unat (column \<lparr>filePath = ''a.hpp'', line = 1, column = 7, extent = 3 :: 32 word\<rparr> - 1)
     + unat (extent \<lparr>filePath = ''a.hpp'', line = 1, column = 7 :: 32 word, extent = 3\<rparr>)
     = length ''class Foo''"
    by simp
  have h2: "length ''class Foo'' < 2 ^ 32"
    by simp
  show ?thesis
    using h1 htmlMessage_span_at_line_end [OF h1 h2, of escapeMarkup] by simp
qed

text \<open>
  C3 (as amended). For a cursor location whose extent is 0, \<open>htmlMessage\<close> returns the
  whole line escaped and wrapped in one strong marker when the zero-based column
  \<open>column - 1\<close> lies inside the line, and the escaped line with no marker when that
  column lies beyond the end of the line. The column that equals the length of the line
  is left out of this statement.
\<close>

theorem htmlMessage_zero_extent:
  "extent loc = 0 \<Longrightarrow>
     (unat (column loc - 1) < length message \<longrightarrow>
        htmlMessage esc loc message = Inr (''<strong>'' @ esc message @ ''</strong>''))
     \<and> (length message < unat (column loc - 1) \<longrightarrow>
        htmlMessage esc loc message = Inr (esc message))"
  by (simp add: htmlMessage_def)

theorem htmlMessage_zero_extent_witness:
  "extent \<lparr>filePath = ''a.cpp'', line = 1, column = 3 :: 32 word, extent = 0 :: 32 word\<rparr> = 0
   \<and> unat (column \<lparr>filePath = ''a.cpp'', line = 1, column = 3 :: 32 word,
                    extent = 0 :: 32 word\<rparr> - 1) < length ''a < b''
   \<and> htmlMessage escapeMarkup \<lparr>filePath = ''a.cpp'', line = 1, column = 3, extent = 0\<rparr>
       ''a < b'' = Inr ''<strong>a &lt; b</strong>''
   \<and> length ''a < b''
       < unat (column \<lparr>filePath = ''a.cpp'', line = 1, column = 8 :: 32 word,
                      extent = 0 :: 32 word\<rparr> - 1)
   \<and> htmlMessage escapeMarkup \<lparr>filePath = ''a.cpp'', line = 1, column = 8, extent = 0\<rparr>
       ''a < b'' = Inr ''a &lt; b''"
proof -
  let ?inside = "\<lparr>filePath = ''a.cpp'', line = 1, column = 3 :: 32 word,
                   extent = 0 :: 32 word\<rparr>"
  let ?beyond = "\<lparr>filePath = ''a.cpp'', line = 1, column = 8 :: 32 word,
                   extent = 0 :: 32 word\<rparr>"
  have h1: "extent ?inside = 0" and h2: "extent ?beyond = 0"
    by simp_all
  have c1: "unat (column ?inside - 1) < length ''a < b''"
    by simp
  have c2: "length ''a < b'' < unat (column ?beyond - 1)"
    by simp
  from htmlMessage_zero_extent [OF h1, of "''a < b''" escapeMarkup] c1
  have r1: "htmlMessage escapeMarkup ?inside ''a < b'' = Inr ''<strong>a &lt; b</strong>''"
    by simp
  from htmlMessage_zero_extent [OF h2, of "''a < b''" escapeMarkup] c2
  have r2: "htmlMessage escapeMarkup ?beyond ''a < b'' = Inr ''a &lt; b''"
    by simp
  from h1 c1 r1 c2 r2 show ?thesis
    by blast
qed

text \<open>
  The claim as first stated, "at any column", fails: column 10 of the six-character line
  \<open>int x;\<close> with extent 0 gives the escaped line without the marker.
\<close>

theorem htmlMessage_zero_extent_counterexample:
  "htmlMessage escapeMarkup
     \<lparr>filePath = ''a.cpp'', line = 1, column = 10, extent = 0\<rparr> ''int x;''
   \<noteq> Inr (''<strong>'' @ escapeMarkup ''int x;'' @ ''</strong>'')"
  by (simp add: htmlMessage_def)

section \<open>The file contents cache\<close>

subsection \<open>Splitting into lines\<close>

lemma split_not_empty: "split s p \<noteq> []"
  by (induction s) (auto split: list.splits)

lemma split_tokens_free_of_separators: "\<forall>t \<in> set (split s p). \<forall>c \<in> set t. \<not> p c"
proof (induction s)
  case Nil
  then show ?case by simp
next
  case (Cons a s)
  then show ?case
    by (cases "split s p") (auto simp: split_not_empty)
qed

lemma length_split: "length (split s p) = Suc (length (filter p s))"
proof (induction s)
  case Nil
  then show ?case by simp
next
  case (Cons a s)
  then show ?case
    by (cases "split s p") (auto simp: split_not_empty)
qed

lemma concat_split: "concat (split s p) = filter (\<lambda>c. \<not> p c) s"
proof (induction s)
  case Nil
  then show ?case by simp
next
  case (Cons a s)
  then show ?case
    by (cases "split s p") (auto simp: split_not_empty)
qed

subsection \<open>Looking up the unsaved files\<close>

lemma unsavedFileLines_find:
  "unsavedFileLines unsavedFiles filename =
     map_option (\<lambda>u. split (take (Length u) (Contents u)) (is_any_of [CHR 0x0A]))
       (find (\<lambda>u. Filename u = filename) unsavedFiles)"
  by (induction unsavedFiles) auto

lemma unsavedFileLines_None:
  "unsavedFileLines unsavedFiles filename = None
     \<longleftrightarrow> (\<forall>u \<in> set unsavedFiles. Filename u \<noteq> filename)"
  by (induction unsavedFiles) auto

text \<open>
  C9. On a cache miss, when the requested path equals the name of an unsaved file of the
  index, the content of the first such file, split into lines at the newline character,
  is stored in the cache and returned, whatever the file system holds for that path, and
  no file is read. A file is read only on a cache miss for a path that no unsaved file
  has.
\<close>

theorem fileContents_unsaved_precedence:
  "(sourceFileContents filename = None
      \<and> find (\<lambda>u. Filename u = filename) unsavedFiles = Some unsavedFile
    \<longrightarrow> fileContents isError unsavedFiles readStringVectorFromFile sourceFileContents filename
        = (split (take (Length unsavedFile) (Contents unsavedFile)) (is_any_of [CHR 0x0A]),
           sourceFileContents(filename \<mapsto>
             split (take (Length unsavedFile) (Contents unsavedFile)) (is_any_of [CHR 0x0A])),
           []))
   \<and> (readFile path
         \<in> set (snd (snd (fileContents isError unsavedFiles readStringVectorFromFile
                             sourceFileContents filename)))
    \<longrightarrow> path = filename \<and> sourceFileContents filename = None
        \<and> (\<forall>u \<in> set unsavedFiles. Filename u \<noteq> filename))"
proof (intro conjI impI)
  assume "sourceFileContents filename = None
      \<and> find (\<lambda>u. Filename u = filename) unsavedFiles = Some unsavedFile"
  then show "fileContents isError unsavedFiles readStringVectorFromFile sourceFileContents filename
        = (split (take (Length unsavedFile) (Contents unsavedFile)) (is_any_of [CHR 0x0A]),
           sourceFileContents(filename \<mapsto>
             split (take (Length unsavedFile) (Contents unsavedFile)) (is_any_of [CHR 0x0A])),
           [])"
    by (simp add: fileContents_def unsavedFileLines_find)
next
  assume r: "readFile path
         \<in> set (snd (snd (fileContents isError unsavedFiles readStringVectorFromFile
                             sourceFileContents filename)))"
  then have miss: "sourceFileContents filename = None"
    by (cases "sourceFileContents filename") (auto simp: fileContents_def)
  with r have none: "unsavedFileLines unsavedFiles filename = None"
    by (cases "unsavedFileLines unsavedFiles filename") (auto simp: fileContents_def)
  from r miss none show "path = filename"
    by (auto simp: fileContents_def split: prod.splits if_splits)
  from miss show "sourceFileContents filename = None" .
  from none show "\<forall>u \<in> set unsavedFiles. Filename u \<noteq> filename"
    by (simp add: unsavedFileLines_None)
qed

theorem fileContents_unsaved_precedence_witness:
  "Map.empty ''main.cpp'' = (None :: string list option)
   \<and> find (\<lambda>u. Filename u = ''main.cpp'')
         [\<lparr>Filename = ''util.h'', Contents = ''// util'', Length = 7\<rparr>,
          \<lparr>Filename = ''main.cpp'', Contents = ''int x;'' @ [CHR 0x0A] @ ''int y;'',
           Length = 13\<rparr>]
       = Some \<lparr>Filename = ''main.cpp'', Contents = ''int x;'' @ [CHR 0x0A] @ ''int y;'',
               Length = 13\<rparr>
   \<and> fileContents notSuccess
         [\<lparr>Filename = ''util.h'', Contents = ''// util'', Length = 7\<rparr>,
          \<lparr>Filename = ''main.cpp'', Contents = ''int x;'' @ [CHR 0x0A] @ ''int y;'',
           Length = 13\<rparr>]
         (\<lambda>path. (Success, [''int old;''])) Map.empty ''main.cpp''
       = ([''int x;'', ''int y;''], [''main.cpp'' \<mapsto> [''int x;'', ''int y;'']], [])
   \<and> readFile ''main.cpp''
       \<in> set (snd (snd (fileContents notSuccess
                 [\<lparr>Filename = ''util.h'', Contents = ''// util'', Length = 7\<rparr>]
                 (\<lambda>path. (Success, [''int old;''])) Map.empty ''main.cpp'')))
   \<and> Filename \<lparr>Filename = ''util.h'', Contents = ''// util'', Length = 7\<rparr> \<noteq> ''main.cpp''"
proof -
  let ?util = "\<lparr>Filename = ''util.h'', Contents = ''// util'', Length = 7\<rparr>"
  let ?main = "\<lparr>Filename = ''main.cpp'', Contents = ''int x;'' @ [CHR 0x0A] @ ''int y;'',
                Length = 13\<rparr>"
  let ?disk = "\<lambda>path :: string. (Success, [''int old;''])"
  have miss: "Map.empty ''main.cpp'' = (None :: string list option)"
    by simp
  have found: "find (\<lambda>u. Filename u = ''main.cpp'') [?util, ?main] = Some ?main"
    by simp
  have lines: "split (take (Length ?main) (Contents ?main)) (is_any_of [CHR 0x0A])
      = [''int x;'', ''int y;'']"
    by (simp add: is_any_of_def)
  have read: "readFile ''main.cpp''
       \<in> set (snd (snd (fileContents notSuccess [?util] ?disk Map.empty ''main.cpp'')))"
    by (simp add: fileContents_def notSuccess_def)
  from fileContents_unsaved_precedence
         [of Map.empty "''main.cpp''" "[?util, ?main]" ?main notSuccess ?disk "''main.cpp''"]
       miss found lines
  have first: "fileContents notSuccess [?util, ?main] ?disk Map.empty ''main.cpp''
       = ([''int x;'', ''int y;''], [''main.cpp'' \<mapsto> [''int x;'', ''int y;'']], [])"
    by simp
  from fileContents_unsaved_precedence
         [of Map.empty "''main.cpp''" "[?util]" ?main notSuccess ?disk "''main.cpp''"] read
  have "\<forall>u \<in> set [?util]. Filename u \<noteq> ''main.cpp''"
    by blast
  then have second: "Filename ?util \<noteq> ''main.cpp''"
    by simp
  from miss found first read second show ?thesis
    by blast
qed

subsection \<open>Stability of cache entries\<close>

lemma fileContents_hit:
  "sourceFileContents filename = Some lines \<Longrightarrow>
     fileContents isError unsavedFiles readStringVectorFromFile sourceFileContents filename
       = (lines, sourceFileContents, [])"
  by (simp add: fileContents_def)

lemma fileContents_stores_result:
  "fileContents isError unsavedFiles readStringVectorFromFile sourceFileContents filename
     = (lines, sourceFileContents', effects)
   \<Longrightarrow> sourceFileContents' filename = Some lines"
  by (auto simp: fileContents_def split: option.splits prod.splits)

lemma fileContents_keeps_entries:
  "sourceFileContents path = Some lines \<Longrightarrow>
     fst (snd (fileContents isError unsavedFiles readStringVectorFromFile sourceFileContents filename))
       path = Some lines"
  by (auto simp: fileContents_def split: option.splits prod.splits)

lemma fileContentsCalls_keeps_entries:
  "sourceFileContents path = Some lines \<Longrightarrow>
     fileContentsCalls isError requests sourceFileContents path = Some lines"
proof (induction requests arbitrary: sourceFileContents)
  case Nil
  then show ?case by simp
next
  case (Cons request requests)
  obtain unsavedFiles readStringVectorFromFile filename
    where request: "request = (unsavedFiles, readStringVectorFromFile, filename)"
    by (cases request)
  from Cons.prems show ?case
    unfolding request fileContentsCalls.simps
    by (intro Cons.IH fileContents_keeps_entries)
qed

text \<open>
  C10. After a lookup of a path has returned, every later lookup of the same path on the
  same instance returns the same lines, reads no file and leaves the cache as it is,
  whatever the unsaved files and the file system have become in the meantime and
  whatever other lookups were made in between. Two lookups in a row are the case of no
  lookups in between.
\<close>

theorem fileContents_stable:
  assumes "fileContents isError unsavedFiles readStringVectorFromFile sourceFileContents filename
             = (lines, sourceFileContents', effects)"
  shows "fileContents isError unsavedFiles' readStringVectorFromFile'
             (fileContentsCalls isError requests sourceFileContents') filename
           = (lines, fileContentsCalls isError requests sourceFileContents', [])"
  by (intro fileContents_hit fileContentsCalls_keeps_entries
      fileContents_stores_result [OF assms])

theorem fileContents_stable_witness:
  "fileContents notSuccess [] (\<lambda>path. (Success, [''int old;''])) Map.empty ''main.cpp''
     = ([''int old;''], [''main.cpp'' \<mapsto> [''int old;'']], [readFile ''main.cpp''])
   \<and> fileContents notSuccess
         [\<lparr>Filename = ''main.cpp'', Contents = ''int new;'', Length = 8\<rparr>]
         (\<lambda>path. (systemError 2, [])) [''main.cpp'' \<mapsto> [''int old;'']] ''main.cpp''
     = ([''int old;''], [''main.cpp'' \<mapsto> [''int old;'']], [])"
proof -
  have first: "fileContents notSuccess [] (\<lambda>path. (Success, [''int old;''])) Map.empty ''main.cpp''
     = ([''int old;''], [''main.cpp'' \<mapsto> [''int old;'']], [readFile ''main.cpp''])"
    by (simp add: fileContents_def notSuccess_def)
  show ?thesis
    using first
      fileContents_stable [OF first,
        of "[\<lparr>Filename = ''main.cpp'', Contents = ''int new;'', Length = 8\<rparr>]"
           "\<lambda>path. (systemError 2, [])" "[]"]
    by simp
qed

section \<open>The output-capture reader loop\<close>

lemma DWORD_of_negative:
  assumes "- (2 ^ 31) \<le> k" and "k < 0"
  shows "unat (word_of_int k :: 32 word) = nat (2 ^ 32 + k)"
    and "(0 :: 32 word) < word_of_int k"
proof -
  have "k mod 2 ^ 32 = (2 ^ 32 + k) mod 2 ^ 32"
    by simp
  also have "\<dots> = 2 ^ 32 + k"
    using assms by (intro mod_pos_pos_trivial) simp_all
  finally have m: "k mod 2 ^ 32 = 2 ^ 32 + k" .
  have "uint (word_of_int k :: 32 word) = 2 ^ 32 + k"
    using m by (simp add: uint_word_of_int)
  then show u: "unat (word_of_int k :: 32 word) = nat (2 ^ 32 + k)"
    by (simp add: unat_eq_nat_uint)
  have "unat (word_of_int k :: 32 word) \<noteq> 0"
    using u assms by simp
  then show "(0 :: 32 word) < word_of_int k"
    by (simp add: word_gt_0 unat_eq_0)
qed

text \<open>
  No run of the loop ever logs a read error: the branch \<^verbatim>\<open>bytesRead < 0\<close> compares an
  unsigned value with zero.
\<close>

lemma standardStreamCaptureThread_never_logs_error:
  "LOG_ERROR_event e \<notin> set events \<Longrightarrow>
     LOG_ERROR_event e \<notin> set (fst (standardStreamCaptureThread reads events))"
  by (induction reads events rule: standardStreamCaptureThread.induct)
     (auto simp: Let_def)

text \<open>
  The loop breaks only at a read that returns 0, and the warning is the last thing it
  does before that.
\<close>

lemma standardStreamCaptureThread_exit:
  "snd (standardStreamCaptureThread reads events) = Exited \<Longrightarrow>
     (\<exists>r \<in> set reads. (word_of_int (returned r) :: 32 word) = 0)
     \<and> last (fst (standardStreamCaptureThread reads events))
         = LOG_WARNING_MESSAGE ''Reached end of input on standard stream''"
  by (induction reads events rule: standardStreamCaptureThread.induct)
     (auto simp: Let_def split: if_splits)

text \<open>
  A read of 1 to 512 bytes is passed to the handler and the loop reads again.
\<close>

lemma standardStreamCaptureThread_chunk:
  assumes "0 < returned r" and "returned r \<le> 512"
  shows "standardStreamCaptureThread (r # rs) events =
           standardStreamCaptureThread rs (events @ [outputHandler (nat (returned r))])"
proof -
  have u: "uint (word_of_int (returned r) :: 32 word) = returned r"
    using assms by (simp add: uint_word_of_int)
  then have n: "unat (word_of_int (returned r) :: 32 word) = nat (returned r)"
    by (simp add: unat_eq_nat_uint)
  then have "(0 :: 32 word) < word_of_int (returned r)"
    using assms by (simp add: word_gt_0 unat_eq_0 [symmetric] del: unat_eq_0)
  moreover have "nat (returned r) \<le> kBufferSize"
    using assms by (simp add: kBufferSize_def)
  ultimately show ?thesis
    using n by (simp add: Let_def)
qed

text \<open>
  C4. The claim says that a read error (a negative return value of \<^verbatim>\<open>_read\<close>) is logged
  and the read retried, without the output handler being invoked, and that a zero-byte
  read is the only way out of the loop. The source stores the return value in a
  \<^verbatim>\<open>DWORD\<close>, so a negative value \<open>k\<close> becomes \<open>2^32 + k\<close> and the test \<^verbatim>\<open>bytesRead > 0\<close>
  holds: the loop goes on to build a string of that many bytes from its 512-byte
  buffer. Nothing is logged, the read is not retried, and the run ends there.
\<close>

theorem standardStreamCaptureThread_read_error:
  assumes "- (2 ^ 31) \<le> returned r" and "returned r < 0"
  shows "standardStreamCaptureThread (r # rs) events
           = (events, BufferOverrun (nat (2 ^ 32 + returned r)))"
proof -
  have "kBufferSize < nat (2 ^ 32 + returned r)"
    using assms by (simp add: kBufferSize_def)
  with DWORD_of_negative [OF assms] show ?thesis
    by (simp add: Let_def)
qed

theorem standardStreamCaptureThread_read_error_witness:
  "- (2 ^ 31) \<le> returned \<lparr>returned = - 1, lastError = 6\<rparr>
   \<and> returned \<lparr>returned = - 1, lastError = 6\<rparr> < 0
   \<and> standardStreamCaptureThread
         [\<lparr>returned = - 1, lastError = 6\<rparr>, \<lparr>returned = 0, lastError = 0\<rparr>] []
       = ([], BufferOverrun 4294967295)"
proof -
  have h1: "- (2 ^ 31) \<le> returned \<lparr>returned = - 1, lastError = 6\<rparr>"
    by simp
  have h2: "returned \<lparr>returned = - 1, lastError = 6\<rparr> < 0"
    by simp
  show ?thesis
    using h1 h2
      standardStreamCaptureThread_read_error
        [OF h1 h2, of "[\<lparr>returned = 0, lastError = 0\<rparr>]" "[]"]
    by simp
qed

section \<open>Redirecting the standard streams\<close>

text \<open>
  C5 (as amended). \<open>captureStandardStreams\<close> returns the value \<open>redirectToPipe\<close> gave for
  standard output, with the steps made so far and no reader thread, whenever that value
  tests true in \<^verbatim>\<open>if (error)\<close>, and it creates a reader thread only after that value has
  tested false. The value is a system error in more cases than the pipe call:
  \<open>redirectToPipe\<close> returns a system error and leaves \<^verbatim>\<open>*pReadFd\<close> alone when
  \<^verbatim>\<open>::_get_osfhandle\<close> gives the invalid handle, when \<^verbatim>\<open>::SetStdHandle\<close> fails or when
  \<^verbatim>\<open>::_dup2\<close> returns nonzero, and it duplicates the descriptor only after the handle
  redirection has succeeded. Which return value of \<^verbatim>\<open>::_pipe\<close> is the failure case is
  left out of this statement.
\<close>

theorem captureStandardStreams_passes_errors_on:
  "(get_osfhandle_returns env = INVALID_HANDLE_VALUE \<or> \<not> SetStdHandle_returns env
      \<or> dup2_returns env \<noteq> 0
    \<longrightarrow> (\<exists>code. fst (redirectToPipe env stdHandle pReadFd) = systemError code)
        \<and> fst (snd (redirectToPipe env stdHandle pReadFd)) = pReadFd)
   \<and> (dup2 d \<in> set (snd (snd (redirectToPipe env stdHandle pReadFd)))
    \<longrightarrow> SetStdHandle_returns env
        \<and> SetStdHandle stdHandle (get_osfhandle_returns env)
            \<in> set (snd (snd (redirectToPipe env stdHandle pReadFd))))
   \<and> (isError (fst (redirectToPipe stdoutEnv STD_OUTPUT_HANDLE 0))
    \<longrightarrow> captureStandardStreams isError stderrHandler stdoutEnv stderrEnv stdoutThreadStarts
          stderrThreadStarts
        = (fst (redirectToPipe stdoutEnv STD_OUTPUT_HANDLE 0),
           snd (snd (redirectToPipe stdoutEnv STD_OUTPUT_HANDLE 0))))
   \<and> (thread fd \<in> set (snd (captureStandardStreams isError stderrHandler stdoutEnv stderrEnv
                              stdoutThreadStarts stderrThreadStarts))
    \<longrightarrow> \<not> isError (fst (redirectToPipe stdoutEnv STD_OUTPUT_HANDLE 0)))"
proof (intro conjI impI)
  assume "get_osfhandle_returns env = INVALID_HANDLE_VALUE \<or> \<not> SetStdHandle_returns env
      \<or> dup2_returns env \<noteq> 0"
  then show "\<exists>code. fst (redirectToPipe env stdHandle pReadFd) = systemError code"
    by (auto simp: redirectToPipe_def Let_def)
next
  assume "get_osfhandle_returns env = INVALID_HANDLE_VALUE \<or> \<not> SetStdHandle_returns env
      \<or> dup2_returns env \<noteq> 0"
  then show "fst (snd (redirectToPipe env stdHandle pReadFd)) = pReadFd"
    by (auto simp: redirectToPipe_def Let_def)
next
  assume d: "dup2 d \<in> set (snd (snd (redirectToPipe env stdHandle pReadFd)))"
  then show "SetStdHandle_returns env"
    by (auto simp: redirectToPipe_def Let_def split: if_splits)
  from d show "SetStdHandle stdHandle (get_osfhandle_returns env)
            \<in> set (snd (snd (redirectToPipe env stdHandle pReadFd)))"
    by (auto simp: redirectToPipe_def Let_def split: if_splits)
next
  assume "isError (fst (redirectToPipe stdoutEnv STD_OUTPUT_HANDLE 0))"
  then show "captureStandardStreams isError stderrHandler stdoutEnv stderrEnv
          stdoutThreadStarts stderrThreadStarts
        = (fst (redirectToPipe stdoutEnv STD_OUTPUT_HANDLE 0),
           snd (snd (redirectToPipe stdoutEnv STD_OUTPUT_HANDLE 0)))"
    by (cases "redirectToPipe stdoutEnv STD_OUTPUT_HANDLE 0")
       (simp add: captureStandardStreams_def)
next
  assume t: "thread fd \<in> set (snd (captureStandardStreams isError stderrHandler stdoutEnv
                stderrEnv stdoutThreadStarts stderrThreadStarts))"
  show "\<not> isError (fst (redirectToPipe stdoutEnv STD_OUTPUT_HANDLE 0))"
  proof
    assume e: "isError (fst (redirectToPipe stdoutEnv STD_OUTPUT_HANDLE 0))"
    obtain error stdoutFd steps
      where r: "redirectToPipe stdoutEnv STD_OUTPUT_HANDLE 0 = (error, stdoutFd, steps)"
      by (cases "redirectToPipe stdoutEnv STD_OUTPUT_HANDLE 0")
    from e r have c: "captureStandardStreams isError stderrHandler stdoutEnv stderrEnv
        stdoutThreadStarts stderrThreadStarts = (error, steps)"
      by (simp add: captureStandardStreams_def)
    have "thread fd \<notin> set steps"
      using r by (auto simp: redirectToPipe_def Let_def split: if_splits)
    with t c show False
      by simp
  qed
qed

theorem captureStandardStreams_passes_errors_on_witness:
  "\<not> SetStdHandle_returns failed_SetStdHandle_env
   \<and> redirectToPipe failed_SetStdHandle_env STD_OUTPUT_HANDLE 0
       = (systemError 6, 0, [SetStdHandle (- 11) 100])
   \<and> notSuccess (systemError 6)
   \<and> captureStandardStreams notSuccess True failed_SetStdHandle_env nonzero_pipe_env True True
       = (systemError 6, [SetStdHandle (- 11) 100])
   \<and> captureStandardStreams notSuccess False nonzero_pipe_env nonzero_pipe_env True True
       = (Success, [SetStdHandle (- 11) 100, dup2 4, setvbuf, sync_with_stdio, thread 3])
   \<and> \<not> notSuccess (fst (redirectToPipe nonzero_pipe_env STD_OUTPUT_HANDLE 0))
   \<and> SetStdHandle_returns nonzero_pipe_env"
proof -
  have fail: "redirectToPipe failed_SetStdHandle_env STD_OUTPUT_HANDLE 0
       = (systemError 6, 0, [SetStdHandle (- 11) 100])"
    by (simp add: redirectToPipe_def failed_SetStdHandle_env_def INVALID_HANDLE_VALUE_def
        STD_OUTPUT_HANDLE_def)
  have ok: "redirectToPipe nonzero_pipe_env STD_OUTPUT_HANDLE 0
       = (Success, 3, [SetStdHandle (- 11) 100, dup2 4, setvbuf, sync_with_stdio])"
    by (simp add: redirectToPipe_def nonzero_pipe_env_def INVALID_HANDLE_VALUE_def
        STD_OUTPUT_HANDLE_def)
  have h: "\<not> SetStdHandle_returns failed_SetStdHandle_env"
    by (simp add: failed_SetStdHandle_env_def)
  have test: "notSuccess (systemError 6)"
    by (simp add: notSuccess_def)
  have run: "captureStandardStreams notSuccess False nonzero_pipe_env nonzero_pipe_env True True
       = (Success, [SetStdHandle (- 11) 100, dup2 4, setvbuf, sync_with_stdio, thread 3])"
    by (simp add: captureStandardStreams_def ok notSuccess_def)
  note inst1 = captureStandardStreams_passes_errors_on
      [of failed_SetStdHandle_env STD_OUTPUT_HANDLE 0 4 notSuccess failed_SetStdHandle_env
          True nonzero_pipe_env True True 3]
  note inst2 = captureStandardStreams_passes_errors_on
      [of nonzero_pipe_env STD_OUTPUT_HANDLE 0 4 notSuccess nonzero_pipe_env
          False nonzero_pipe_env True True 3]
  from inst1 fail test have a: "captureStandardStreams notSuccess True failed_SetStdHandle_env
      nonzero_pipe_env True True = (systemError 6, [SetStdHandle (- 11) 100])"
    by simp
  from inst2 run have b: "\<not> notSuccess (fst (redirectToPipe nonzero_pipe_env
      STD_OUTPUT_HANDLE 0))"
    by simp
  from inst2 ok have c: "SetStdHandle_returns nonzero_pipe_env"
    by simp
  from h fail test a run b c show ?thesis
    by blast
qed

text \<open>
  The claim as first stated fails in both directions. A system error is returned although
  \<^verbatim>\<open>::_pipe\<close> returned a nonzero value: \<^verbatim>\<open>::_get_osfhandle\<close> gives the invalid handle and the
  error built from \<^verbatim>\<open>errno\<close> comes back, under either conversion of errors to truth
  values. And when \<^verbatim>\<open>::_pipe\<close> returns 0 while the last error is 0, the error value
  carries the code 0; under the conversion that follows the code it tests false, so
  \<open>captureStandardStreams\<close> returns \<open>Success\<close> and creates the reader thread on
  descriptor 0, with nothing redirected.
\<close>

theorem captureStandardStreams_error_counterexample:
  "pipe_returns bad_handle_env \<noteq> 0
   \<and> captureStandardStreams notSuccess False bad_handle_env bad_handle_env True True
       = (systemError 9, [])
   \<and> captureStandardStreams codeIsNonzero False bad_handle_env bad_handle_env True True
       = (systemError 9, [])
   \<and> pipe_returns quiet_zero_pipe_env = 0
   \<and> captureStandardStreams codeIsNonzero False quiet_zero_pipe_env quiet_zero_pipe_env
         True True
       = (Success, [thread 0])"
  by (simp add: captureStandardStreams_def redirectToPipe_def bad_handle_env_def
      quiet_zero_pipe_env_def INVALID_HANDLE_VALUE_def notSuccess_def codeIsNonzero_def)

end
